theory Spec2Isabelle
  imports Main
begin

section \<open>Sign-in with Solana messages (siws/siws.py)\<close>

subsection \<open>Values and exceptions\<close>

text \<open>
  Python \<open>str\<close> is modelled by \<open>string\<close>, for text whose characters are single bytes,
  and \<open>bytes\<close> by a list of numbers below 256.
\<close>

type_synonym bytes = "nat list"

text \<open>
  The exceptions of \<open>siws.exceptions\<close> that siws.py raises, and
  \<open>MalformedAddressOrSignature\<close>, which the specification names for decode failures and
  which no statement of siws.py raises.
\<close>

datatype siws_exception =
  DomainMismatch | NonceMismatch | ExpiredMessage | NotYetValidMessage | InvalidSignature
  | MalformedAddressOrSignature

text \<open>Exceptions raised by Python itself and by the imported packages (base58, nacl).\<close>

datatype py_exception = BadSignatureError | ValueError | TypeError

text \<open>
  A \<open>datetime\<close> is naive (no time zone; the number is its wall-clock reading) or aware
  (the number is its instant on the UTC time line). \<open>datetime.utcnow()\<close> is naive.
\<close>

datatype datetime = Naive int | Aware int

text \<open>
  Modelled from the spec: \<open>siws.custom_types.CustomDateTime\<close> is imported by siws.py but
  its declaration is not among the sources. The spec calls it a canonical timestamp.
  siws.py formats a value into the text, assigns the field \<open>issued_at\<close> a plain string, and
  reads the attribute \<open>date\<close> of a value to compare it with a \<open>datetime\<close>. So a value
  carries the text that formatting it yields (\<open>str_of\<close>) and the \<open>datetime\<close> it denotes
  (\<open>date\<close>); it is not itself a \<open>datetime\<close>, and nothing gives it an ordering with
  \<open>datetime\<close> values. A value that is set is truthy.
\<close>

datatype CustomDateTime = CustomDateTime (str_of: string) (date: datetime)

text \<open>
  Python's \<open><=\<close> and \<open>>=\<close> with a \<open>datetime\<close> on the left. Two naive or two aware
  values are compared by their numbers; a naive and an aware value raise \<open>TypeError\<close>; so
  does a right operand that is not a \<open>datetime\<close>, here a \<open>CustomDateTime\<close> value
  itself.
\<close>

datatype operand = A_datetime datetime | A_CustomDateTime CustomDateTime

fun datetime_le :: "datetime \<Rightarrow> datetime \<Rightarrow> py_exception + bool" where
  "datetime_le (Naive a) (Naive b) = Inr (a \<le> b)"
| "datetime_le (Aware a) (Aware b) = Inr (a \<le> b)"
| "datetime_le (Naive a) (Aware b) = Inl TypeError"
| "datetime_le (Aware a) (Naive b) = Inl TypeError"

fun datetime_ge :: "datetime \<Rightarrow> datetime \<Rightarrow> py_exception + bool" where
  "datetime_ge (Naive a) (Naive b) = Inr (a \<ge> b)"
| "datetime_ge (Aware a) (Aware b) = Inr (a \<ge> b)"
| "datetime_ge (Naive a) (Aware b) = Inl TypeError"
| "datetime_ge (Aware a) (Naive b) = Inl TypeError"

fun py_le :: "datetime \<Rightarrow> operand \<Rightarrow> py_exception + bool" where
  "py_le a (A_datetime b) = datetime_le a b"
| "py_le a (A_CustomDateTime t) = Inl TypeError"

fun py_ge :: "datetime \<Rightarrow> operand \<Rightarrow> py_exception + bool" where
  "py_ge a (A_datetime b) = datetime_ge a b"
| "py_ge a (A_CustomDateTime t) = Inl TypeError"

text \<open>The kinds of field error that pydantic reports for the declared constraints.\<close>

datatype error_kind =
  missing | string_pattern_mismatch | string_too_short | greater_than_equal | too_short
  | url_parsing

datatype exn =
  Siws siws_exception
  | Py py_exception
  | ValidationError "(string \<times> error_kind) list"

subsection \<open>The message\<close>

text \<open>
  The fields of \<open>SiwsMessage\<close>, in declaration order. \<open>issued_at\<close> is held as the text
  that formatting it yields: the code only tests it against \<open>None\<close>, formats it, and
  assigns it the plain string \<open>datetime.utcnow().isoformat()\<close>. Each resource (an
  \<open>AnyUrl\<close>) is held as the text that formatting it yields.
\<close>

record SiwsMessage =
  domain :: string
  address :: string
  uri :: string
  version :: string
  chain_id :: int
  issued_at :: "string option"
  nonce :: string
  statement :: "string option"
  expiration_time :: "CustomDateTime option"
  not_before :: "CustomDateTime option"
  request_id :: "string option"
  resources :: "string list option"

subsection \<open>Formatting\<close>

text \<open>\<open>str(n)\<close> for a Python integer: decimal digits, with a minus sign when negative.\<close>

definition digit_char :: "nat \<Rightarrow> char" where
  "digit_char d = char_of (48 + d)"

fun str_nat :: "nat \<Rightarrow> string" where
  "str_nat n = (if n < 10 then [digit_char n] else str_nat (n div 10) @ [digit_char (n mod 10)])"

declare str_nat.simps [simp del]

definition str_int :: "int \<Rightarrow> string" where
  "str_int i = (if i < 0 then CHR ''-'' # str_nat (nat (- i)) else str_nat (nat i))"

text \<open>\<open>sep.join(xs)\<close>.\<close>

fun join :: "string \<Rightarrow> string list \<Rightarrow> string" where
  "join sep [] = []"
| "join sep [x] = x"
| "join sep (x # y # ys) = x @ sep @ join sep (y # ys)"

definition NL :: string where
  "NL = [CHR 0x0A]"

text \<open>Truthiness of an \<open>Optional[str]\<close> or optional list: set and not empty.\<close>

fun truthy :: "'a list option \<Rightarrow> bool" where
  "truthy None = False"
| "truthy (Some xs) = (xs \<noteq> [])"

text \<open>What an f-string renders for an \<open>Optional[str]\<close>: the string, or \<open>None\<close>.\<close>

fun fmt :: "string option \<Rightarrow> string" where
  "fmt None = ''None''"
| "fmt (Some s) = s"

text \<open>\<open>str.encode()\<close>: each character of the text gives the byte of its code.\<close>

definition encode :: "string \<Rightarrow> bytes" where
  "encode s = map of_char s"

subsection \<open>prepare_message\<close>

text \<open>
  \<open>prepare_message\<close> reads the clock only to fill an unset \<open>issued_at\<close>; \<open>now_iso\<close> is
  the value of \<open>datetime.utcnow().isoformat()\<close> at the call. The function returns the
  text together with the message as the call leaves it.
\<close>

definition prepare_message :: "string \<Rightarrow> SiwsMessage \<Rightarrow> string \<times> SiwsMessage" where
  "prepare_message now_iso self =
     (let header = domain self @ '' wants you to sign in with your Solana account:'';
          uri_field = ''URI: '' @ uri self;
          prefix = join NL [header, address self];
          version_field = ''Version: '' @ version self;
          chain_field = ''Chain ID: '' @ str_int (if chain_id self \<noteq> 0 then chain_id self else 1);
          nonce_field = ''Nonce: '' @ nonce self;
          suffix_array = [uri_field, version_field, chain_field, nonce_field];
          self = (if issued_at self = None then self\<lparr>issued_at := Some now_iso\<rparr> else self);
          suffix_array = suffix_array @ [''Issued At: '' @ fmt (issued_at self)];
          suffix_array = (case expiration_time self of
                            Some t \<Rightarrow> suffix_array @ [''Expiration Time: '' @ str_of t]
                          | None \<Rightarrow> suffix_array);
          suffix_array = (case not_before self of
                            Some t \<Rightarrow> suffix_array @ [''Not Before: '' @ str_of t]
                          | None \<Rightarrow> suffix_array);
          suffix_array = (if truthy (request_id self)
                          then suffix_array @ [''Request ID: '' @ fmt (request_id self)]
                          else suffix_array);
          suffix_array = (case resources self of
                            Some rs \<Rightarrow>
                              if rs \<noteq> []
                              then suffix_array
                                   @ [join NL ([''Resources:''] @ map (\<lambda>resource. ''- '' @ resource) rs)]
                              else suffix_array
                          | None \<Rightarrow> suffix_array);
          suffix = join NL suffix_array;
          prefix = (if truthy (statement self)
                    then join (NL @ NL) [prefix, fmt (statement self)]
                    else prefix @ NL)
      in (join (NL @ NL) [prefix, suffix], self))"

subsection \<open>verify\<close>

text \<open>
  The imported packages are taken as capabilities: \<open>base58.b58decode\<close>, the constructor
  \<open>nacl.signing.VerifyKey\<close> (a key object is held as its bytes) and its method
  \<open>verify\<close> (key, message, signature). Each returns its value or raises.
\<close>

record capabilities =
  b58decode :: "string \<Rightarrow> py_exception + bytes"
  VerifyKey :: "bytes \<Rightarrow> py_exception + bytes"
  VerifyKey_verify :: "bytes \<Rightarrow> bytes \<Rightarrow> bytes \<Rightarrow> py_exception + bytes"

text \<open>The body of the \<open>try\<close> statement of \<open>verify\<close>: the first exception ends it.\<close>

definition try_body :: "capabilities \<Rightarrow> SiwsMessage \<Rightarrow> bytes \<Rightarrow> string \<Rightarrow> py_exception + unit" where
  "try_body caps self message signature =
     (case b58decode caps (address self) of
        Inl e \<Rightarrow> Inl e
      | Inr key_bytes \<Rightarrow>
          (case VerifyKey caps key_bytes of
             Inl e \<Rightarrow> Inl e
           | Inr verify_key \<Rightarrow>
               (case b58decode caps signature of
                  Inl e \<Rightarrow> Inl e
                | Inr signature_bytes \<Rightarrow>
                    (case VerifyKey_verify caps verify_key message signature_bytes of
                       Inl e \<Rightarrow> Inl e
                     | Inr _ \<Rightarrow> Inr ()))))"

text \<open>
  \<open>except BadSignatureError as e: raise exceptions.InvalidSignature from e\<close>; any other
  exception leaves the \<open>try\<close> statement as it is.
\<close>

definition except_BadSignatureError :: "py_exception + unit \<Rightarrow> exn + unit" where
  "except_BadSignatureError r =
     (case r of
        Inl e \<Rightarrow> if e = BadSignatureError then Inl (Siws InvalidSignature) else Inl (Py e)
      | Inr u \<Rightarrow> Inr u)"

text \<open>
  \<open>verify(signature, domain=..., nonce=..., timestamp=...)\<close>. \<open>now_iso\<close> is the clock as
  \<open>prepare_message\<close> reads it and \<open>utcnow\<close> the reading of \<open>datetime.utcnow()\<close> for
  \<open>verification_time\<close>. Line 132 compares \<open>verification_time\<close> with
  \<open>self.expiration_time\<close> itself, line 135 with \<open>self.not_before.date\<close>; a comparison
  that raises ends the call with its exception. The result is \<open>Inr ()\<close> when the call
  returns and \<open>Inl e\<close> when it raises \<open>e\<close>, together with the message as the call leaves
  it.
\<close>

definition verify ::
  "capabilities \<Rightarrow> string \<Rightarrow> int \<Rightarrow> SiwsMessage \<Rightarrow> string \<Rightarrow> string option \<Rightarrow> string option
   \<Rightarrow> datetime option \<Rightarrow> (exn + unit) \<times> SiwsMessage" where
  "verify caps now_iso utcnow self0 signature domain_arg nonce_arg timestamp =
     (let (message_text, self) = prepare_message now_iso self0;
          message = encode message_text;
          verification_time = (case timestamp of None \<Rightarrow> Naive utcnow | Some t \<Rightarrow> t)
      in if truthy domain_arg \<and> domain_arg \<noteq> Some (domain self)
         then (Inl (Siws DomainMismatch), self)
         else if truthy nonce_arg \<and> Some (nonce self) \<noteq> nonce_arg
         then (Inl (Siws NonceMismatch), self)
         else
           (case (case expiration_time self of
                    None \<Rightarrow> Inr False
                  | Some t \<Rightarrow> py_ge verification_time (A_CustomDateTime t)) of
              Inl e \<Rightarrow> (Inl (Py e), self)
            | Inr True \<Rightarrow> (Inl (Siws ExpiredMessage), self)
            | Inr False \<Rightarrow>
                (case (case not_before self of
                         None \<Rightarrow> Inr False
                       | Some t \<Rightarrow> py_le verification_time (A_datetime (date t))) of
                   Inl e \<Rightarrow> (Inl (Py e), self)
                 | Inr True \<Rightarrow> (Inl (Siws NotYetValidMessage), self)
                 | Inr False \<Rightarrow>
                     (except_BadSignatureError (try_body caps self message signature),
                      self))))"

subsection \<open>Field constraints\<close>

text \<open>
  The regular expressions of the \<open>Field(pattern=...)\<close> constraints are built from
  \<open>^\<close>, \<open>$\<close> and \<open>[^...]+\<close>. A pattern is searched in the value; \<open>$\<close> matches at the
  end of the value only.
\<close>

datatype regex_item = Bol | Eol | PlusNot "char list"

fun match_here :: "regex_item list \<Rightarrow> bool \<Rightarrow> string \<Rightarrow> bool" where
  "match_here [] at_start s = True"
| "match_here (Bol # p) at_start s = (at_start \<and> match_here p at_start s)"
| "match_here (Eol # p) at_start s = (s = [] \<and> match_here p at_start s)"
| "match_here (PlusNot cs # p) at_start [] = False"
| "match_here (PlusNot cs # p) at_start (c # s) =
     (c \<notin> set cs \<and> (match_here (PlusNot cs # p) False s \<or> match_here p False s))"

fun search_later :: "regex_item list \<Rightarrow> string \<Rightarrow> bool" where
  "search_later p [] = False"
| "search_later p (c # s) = (match_here p False s \<or> search_later p s)"

definition re_search :: "regex_item list \<Rightarrow> string \<Rightarrow> bool" where
  "re_search p s = (match_here p True s \<or> search_later p s)"

text \<open>\<open>"^[^/?#]+$"\<close> and \<open>"^[^\n]+$"\<close>.\<close>

definition domain_pattern :: "regex_item list" where
  "domain_pattern = [Bol, PlusNot ''/?#'', Eol]"

definition statement_pattern :: "regex_item list" where
  "statement_pattern = [Bol, PlusNot [CHR 0x0A], Eol]"

text \<open>
  What construction takes from outside siws.py: the two parsers of \<open>siws.parsed\<close>, each
  giving the field values of a text or raising, and whether pydantic's \<open>AnyUrl\<close> accepts
  a string.
\<close>

record collaborators =
  ABNFParsedMessage :: "string \<Rightarrow> exn + SiwsMessage"
  RegExpParsedMessage :: "string \<Rightarrow> exn + SiwsMessage"
  AnyUrl_ok :: "string \<Rightarrow> bool"

text \<open>
  The declared constraint of each field, as the list of errors it reports. A field
  record holds values of the fields' types; \<open>None\<close> is a key that is absent.
\<close>

definition validate_domain :: "string \<Rightarrow> (string \<times> error_kind) list" where
  "validate_domain v =
     (if re_search domain_pattern v then [] else [(''domain'', string_pattern_mismatch)])"

definition validate_uri :: "collaborators \<Rightarrow> string \<Rightarrow> (string \<times> error_kind) list" where
  "validate_uri env v = (if AnyUrl_ok env v then [] else [(''uri'', url_parsing)])"

definition validate_chain_id :: "int \<Rightarrow> (string \<times> error_kind) list" where
  "validate_chain_id v = (if v \<ge> 0 then [] else [(''chain_id'', greater_than_equal)])"

definition validate_issued_at :: "string option \<Rightarrow> (string \<times> error_kind) list" where
  "validate_issued_at v = (case v of None \<Rightarrow> [(''issued_at'', missing)] | Some _ \<Rightarrow> [])"

definition validate_nonce :: "string \<Rightarrow> (string \<times> error_kind) list" where
  "validate_nonce v = (if length v \<ge> 8 then [] else [(''nonce'', string_too_short)])"

definition validate_statement :: "string option \<Rightarrow> (string \<times> error_kind) list" where
  "validate_statement v =
     (case v of
        None \<Rightarrow> []
      | Some s \<Rightarrow>
          if re_search statement_pattern s then [] else [(''statement'', string_pattern_mismatch)])"

definition validate_resources ::
  "collaborators \<Rightarrow> string list option \<Rightarrow> (string \<times> error_kind) list" where
  "validate_resources env v =
     (case v of
        None \<Rightarrow> []
      | Some rs \<Rightarrow>
          if length rs \<ge> 1
          then map (\<lambda>r. (''resources'', url_parsing)) (filter (\<lambda>r. \<not> AnyUrl_ok env r) rs)
          else [(''resources'', too_short)])"

text \<open>
  \<open>super().__init__(**message_dict)\<close>: every field is validated, in declaration order,
  and the errors are raised together; with no error the message holds the values.
\<close>

definition validate_fields :: "collaborators \<Rightarrow> SiwsMessage \<Rightarrow> (string \<times> error_kind) list" where
  "validate_fields env d =
     validate_domain (domain d) @ validate_uri env (uri d) @ validate_chain_id (chain_id d)
     @ validate_issued_at (issued_at d) @ validate_nonce (nonce d)
     @ validate_statement (statement d) @ validate_resources env (resources d)"

definition BaseModel_init :: "collaborators \<Rightarrow> SiwsMessage \<Rightarrow> exn + SiwsMessage" where
  "BaseModel_init env message_dict =
     (case validate_fields env message_dict of
        [] \<Rightarrow> Inr message_dict
      | e # es \<Rightarrow> Inl (ValidationError (e # es)))"

subsection \<open>Construction\<close>

text \<open>
  The \<open>message\<close> argument of \<open>SiwsMessage(message, abnf)\<close> is any Python value: a
  \<open>str\<close>, a \<open>dict\<close> (held as its field values), or something else.
\<close>

datatype py_value =
  isinstance_str: PyStr string | isinstance_dict: PyDict SiwsMessage | PyNone | PyInt int
  | PyBytes bytes | PyList "py_value list"

definition SiwsMessage_init :: "collaborators \<Rightarrow> py_value \<Rightarrow> bool \<Rightarrow> exn + SiwsMessage" where
  "SiwsMessage_init env message abnf =
     (case message of
        PyStr s \<Rightarrow>
          (case (if abnf then ABNFParsedMessage env s else RegExpParsedMessage env s) of
             Inl e \<Rightarrow> Inl e
           | Inr message_dict \<Rightarrow> BaseModel_init env message_dict)
      | PyDict message_dict \<Rightarrow> BaseModel_init env message_dict
      | _ \<Rightarrow> Inl (Py TypeError))"

subsection \<open>The conditions of verify, by name\<close>

text \<open>
  The conditions that \<open>verify\<close> tests, in the order in which it tests them, and the
  time it tests them against. The two time tests give their truth value, or the
  exception that the comparison raises.
\<close>

definition verification_time_of :: "datetime option \<Rightarrow> int \<Rightarrow> datetime" where
  "verification_time_of timestamp utcnow =
     (case timestamp of None \<Rightarrow> Naive utcnow | Some t \<Rightarrow> t)"

definition domain_check_fails :: "string option \<Rightarrow> SiwsMessage \<Rightarrow> bool" where
  "domain_check_fails domain_arg m = (truthy domain_arg \<and> domain_arg \<noteq> Some (domain m))"

definition nonce_check_fails :: "string option \<Rightarrow> SiwsMessage \<Rightarrow> bool" where
  "nonce_check_fails nonce_arg m = (truthy nonce_arg \<and> Some (nonce m) \<noteq> nonce_arg)"

definition expiry_test :: "SiwsMessage \<Rightarrow> datetime \<Rightarrow> py_exception + bool" where
  "expiry_test m vt =
     (case expiration_time m of
        None \<Rightarrow> Inr False
      | Some t \<Rightarrow> py_ge vt (A_CustomDateTime t))"

definition not_before_test :: "SiwsMessage \<Rightarrow> datetime \<Rightarrow> py_exception + bool" where
  "not_before_test m vt =
     (case not_before m of
        None \<Rightarrow> Inr False
      | Some t \<Rightarrow> py_le vt (A_datetime (date t)))"

subsection \<open>The layout of section 4.3, in the specification's words\<close>

text \<open>
  The prefix: header line and address line joined by a newline; the statement, when
  present (set and not empty), appended as a paragraph; else one trailing newline.
\<close>

definition layout_prefix :: "SiwsMessage \<Rightarrow> string" where
  "layout_prefix m =
     domain m @ '' wants you to sign in with your Solana account:'' @ NL @ address m
     @ (case statement m of
          None \<Rightarrow> NL
        | Some s \<Rightarrow> if s = [] then NL else NL @ NL @ s)"

text \<open>The suffix entries, in order; \<open>now_iso\<close> stands in for an unset \<open>issued_at\<close>.\<close>

definition layout_entries :: "string \<Rightarrow> SiwsMessage \<Rightarrow> string list" where
  "layout_entries now_iso m =
     [''URI: '' @ uri m,
      ''Version: '' @ version m,
      ''Chain ID: '' @ str_int (if chain_id m = 0 then 1 else chain_id m),
      ''Nonce: '' @ nonce m,
      ''Issued At: '' @ (case issued_at m of None \<Rightarrow> now_iso | Some t \<Rightarrow> t)]
     @ (case expiration_time m of None \<Rightarrow> [] | Some t \<Rightarrow> [''Expiration Time: '' @ str_of t])
     @ (case not_before m of None \<Rightarrow> [] | Some t \<Rightarrow> [''Not Before: '' @ str_of t])
     @ (case request_id m of
          None \<Rightarrow> []
        | Some r \<Rightarrow> if r = [] then [] else [''Request ID: '' @ r])
     @ (case resources m of
          None \<Rightarrow> []
        | Some rs \<Rightarrow>
            if rs = [] then []
            else [''Resources:'' @ concat (map (\<lambda>resource. NL @ ''- '' @ resource) rs)])"

text \<open>The layout with every suffix entry separated from the next by a blank line.\<close>

definition layout_blank_line_separated :: "string \<Rightarrow> SiwsMessage \<Rightarrow> string" where
  "layout_blank_line_separated now_iso m =
     layout_prefix m @ NL @ NL @ join (NL @ NL) (layout_entries now_iso m)"

text \<open>The layout with every suffix entry on the line after the one before.\<close>

definition layout_newline_separated :: "string \<Rightarrow> SiwsMessage \<Rightarrow> string" where
  "layout_newline_separated now_iso m =
     layout_prefix m @ NL @ NL @ join NL (layout_entries now_iso m)"

subsection \<open>Capabilities for the examples\<close>

text \<open>
  \<open>base58.b58decode\<close> of the base58 package (Bitcoin alphabet): trailing whitespace is
  dropped, a character outside the alphabet raises \<open>ValueError\<close>, each leading
  \<open>1\<close> gives a zero byte, and the rest is the big-endian bytes of the number.
\<close>

definition BITCOIN_ALPHABET :: string where
  "BITCOIN_ALPHABET = ''123456789ABCDEFGHJKLMNPQRSTUVWXYZabcdefghijkmnopqrstuvwxyz''"

fun index_of :: "char \<Rightarrow> string \<Rightarrow> nat option" where
  "index_of c [] = None"
| "index_of c (x # xs) = (if c = x then Some 0 else map_option Suc (index_of c xs))"

fun b58decode_int :: "nat \<Rightarrow> string \<Rightarrow> py_exception + nat" where
  "b58decode_int decimal [] = Inr decimal"
| "b58decode_int decimal (c # v) =
     (case index_of c BITCOIN_ALPHABET of
        None \<Rightarrow> Inl ValueError
      | Some k \<Rightarrow> b58decode_int (decimal * 58 + k) v)"

fun to_bytes_big :: "nat \<Rightarrow> bytes" where
  "to_bytes_big n = (if n = 0 then [] else to_bytes_big (n div 256) @ [n mod 256])"

declare to_bytes_big.simps [simp del]

definition is_space :: "char \<Rightarrow> bool" where
  "is_space c = (c \<in> set [CHR 0x09, CHR 0x0A, CHR 0x0B, CHR 0x0C, CHR 0x0D, CHR 0x1C,
                             CHR 0x1D, CHR 0x1E, CHR 0x1F, CHR 0x20])"

definition rstrip :: "string \<Rightarrow> string" where
  "rstrip v = rev (dropWhile is_space (rev v))"

definition base58_b58decode :: "string \<Rightarrow> py_exception + bytes" where
  "base58_b58decode v0 =
     (let v = rstrip v0;
          origlen = length v;
          v = dropWhile (\<lambda>c. c = CHR ''1'') v;
          newlen = length v
      in case b58decode_int 0 v of
           Inl e \<Rightarrow> Inl e
         | Inr acc \<Rightarrow> Inr (replicate (origlen - newlen) 0 @ to_bytes_big acc))"

text \<open>\<open>nacl.signing.VerifyKey(key)\<close>: a key that is not 32 bytes long raises \<open>ValueError\<close>.\<close>

definition nacl_VerifyKey :: "bytes \<Rightarrow> py_exception + bytes" where
  "nacl_VerifyKey key = (if length key = 32 then Inr key else Inl ValueError)"

text \<open>
  The Ed25519 check itself is not modelled. The examples below all end before
  \<open>verify_key.verify\<close> is called; the capability they are given verifies no signature.
\<close>

definition example_caps :: capabilities where
  "example_caps =
     \<lparr>b58decode = base58_b58decode,
      VerifyKey = nacl_VerifyKey,
      VerifyKey_verify = (\<lambda>key message signature. Inl BadSignatureError)\<rparr>"

text \<open>
  For the examples: parsers that reject every text, and a URL check that accepts the
  \<open>https\<close> URLs.
\<close>

definition example_env :: collaborators where
  "example_env =
     \<lparr>ABNFParsedMessage = (\<lambda>s. Inl (Py ValueError)),
      RegExpParsedMessage = (\<lambda>s. Inl (Py ValueError)),
      AnyUrl_ok = (\<lambda>s. take 8 s = ''https://'' \<and> length s > 8)\<rparr>"

subsection \<open>Example messages\<close>

definition T0 :: CustomDateTime where
  "T0 = CustomDateTime ''2024-01-01T00:00:00Z'' (Aware 1704067200)"

definition T1 :: CustomDateTime where
  "T1 = CustomDateTime ''2024-01-02T00:00:00Z'' (Aware 1704153600)"


definition good_message :: SiwsMessage where
  "good_message =
     \<lparr>domain = ''good.example'',
      address = ''11111111111111111111111111111111'',
      uri = ''https://good.example/login'',
      version = ''1'',
      chain_id = 1,
      issued_at = Some ''2024-01-01T00:00:00Z'',
      nonce = ''abcdefgh'',
      statement = None,
      expiration_time = None,
      not_before = None,
      request_id = None,
      resources = None\<rparr>"

text \<open>
  A message with an address that does not decode, an expiration time in the past and a
  not-before time in the future of it.
\<close>

definition stale_message :: SiwsMessage where
  "stale_message =
     good_message\<lparr>address := ''0OIl'', expiration_time := Some T0, not_before := Some T1\<rparr>"

section \<open>Properties\<close>

subsection \<open>Auxiliary facts\<close>

lemma prepare_message_snd:
  "snd (prepare_message now_iso m)
   = (if issued_at m = None then m\<lparr>issued_at := Some now_iso\<rparr> else m)"
  by (simp add: prepare_message_def Let_def)

lemma prepare_message_fields:
  "domain (snd (prepare_message now_iso m)) = domain m"
  "nonce (snd (prepare_message now_iso m)) = nonce m"
  "expiration_time (snd (prepare_message now_iso m)) = expiration_time m"
  "not_before (snd (prepare_message now_iso m)) = not_before m"
  "address (snd (prepare_message now_iso m)) = address m"
  by (simp_all add: prepare_message_snd)

lemma verify_fst:
  "fst (verify caps now_iso utcnow m sig d n ts) =
    (if domain_check_fails d m then Inl (Siws DomainMismatch)
     else if nonce_check_fails n m then Inl (Siws NonceMismatch)
     else (case expiry_test m (verification_time_of ts utcnow) of
             Inl e \<Rightarrow> Inl (Py e)
           | Inr True \<Rightarrow> Inl (Siws ExpiredMessage)
           | Inr False \<Rightarrow>
               (case not_before_test m (verification_time_of ts utcnow) of
                  Inl e \<Rightarrow> Inl (Py e)
                | Inr True \<Rightarrow> Inl (Siws NotYetValidMessage)
                | Inr False \<Rightarrow>
                    except_BadSignatureError
                      (try_body caps (snd (prepare_message now_iso m))
                         (encode (fst (prepare_message now_iso m))) sig))))"
  by (simp add: verify_def case_prod_beta Let_def prepare_message_fields
      verification_time_of_def domain_check_fails_def nonce_check_fails_def expiry_test_def
      not_before_test_def split: sum.splits bool.splits)

lemma expiry_test_set: "expiration_time m = Some T \<Longrightarrow> expiry_test m vt = Inl TypeError"
  by (simp add: expiry_test_def)


lemma expiry_test_never_True: "expiry_test m vt \<noteq> Inr True"
  by (simp add: expiry_test_def split: option.splits)



lemma join_cons_map:
  "join sep (x # map f ys) = x @ concat (map (\<lambda>y. sep @ f y) ys)"
  by (induction ys arbitrary: x) simp_all

lemma join_cons: "ys \<noteq> [] \<Longrightarrow> join sep (x # ys) = x @ sep @ join sep ys"
  by (cases ys) simp_all

lemma seg_option:
  "(case x of Some t \<Rightarrow> xs @ [f t] | None \<Rightarrow> xs)
   = xs @ (case x of None \<Rightarrow> [] | Some t \<Rightarrow> [f t])"
  by (cases x) simp_all

lemma seg_request_id:
  "(if truthy r then xs @ [p @ fmt r] else xs)
   = xs @ (case r of None \<Rightarrow> [] | Some r \<Rightarrow> if r = [] then [] else [p @ r])"
  by (cases r) simp_all

lemma seg_resources:
  "(case x of
      Some rs \<Rightarrow> if rs \<noteq> [] then xs @ [join sep ([h] @ map f rs)] else xs
    | None \<Rightarrow> xs)
   = xs @ (case x of
             None \<Rightarrow> []
           | Some rs \<Rightarrow> if rs = [] then [] else [h @ concat (map (\<lambda>y. sep @ f y) rs)])"
  by (cases x) (simp_all add: join_cons_map)

lemma seg_statement:
  "(if truthy s then join (NL @ NL) [p, fmt s] else p @ NL)
   = p @ (case s of None \<Rightarrow> NL | Some s \<Rightarrow> if s = [] then NL else NL @ NL @ s)"
  by (cases s) simp_all

lemma seg_issued_at:
  "fmt (issued_at (if issued_at m = None then m\<lparr>issued_at := Some now_iso\<rparr> else m))
   = (case issued_at m of None \<Rightarrow> now_iso | Some t \<Rightarrow> t)"
  by (cases "issued_at m") simp_all

lemma filled_fields:
  "expiration_time (if issued_at m = None then m\<lparr>issued_at := Some now_iso\<rparr> else m)
   = expiration_time m"
  "not_before (if issued_at m = None then m\<lparr>issued_at := Some now_iso\<rparr> else m)
   = not_before m"
  "request_id (if issued_at m = None then m\<lparr>issued_at := Some now_iso\<rparr> else m)
   = request_id m"
  "resources (if issued_at m = None then m\<lparr>issued_at := Some now_iso\<rparr> else m)
   = resources m"
  "statement (if issued_at m = None then m\<lparr>issued_at := Some now_iso\<rparr> else m)
   = statement m"
  by simp_all

lemma prepare_message_text:
  "fst (prepare_message now_iso m)
   = layout_prefix m @ NL @ NL @ join NL (layout_entries now_iso m)"
  unfolding prepare_message_def layout_prefix_def layout_entries_def Let_def
  apply (simp only: fst_conv filled_fields seg_issued_at seg_option seg_request_id
      seg_resources seg_statement)
  apply (simp split del: if_split)
  apply simp
  done

lemma layout_entries_issued_at:
  "issued_at m \<noteq> None \<Longrightarrow> layout_entries a m = layout_entries b m"
  by (auto simp: layout_entries_def)

lemma layout_prefix_issued_at: "layout_prefix (m\<lparr>issued_at := x\<rparr>) = layout_prefix m"
  by (simp add: layout_prefix_def)

lemma match_plus_eol:
  "match_here [PlusNot cs, Eol] b s = (s \<noteq> [] \<and> (\<forall>c\<in>set s. c \<notin> set cs))"
  by (induction s arbitrary: b) auto

lemma search_later_bol: "search_later (Bol # p) s = False"
  by (induction s) auto

lemma re_search_anchored:
  "re_search [Bol, PlusNot cs, Eol] s = (s \<noteq> [] \<and> (\<forall>c\<in>set s. c \<notin> set cs))"
  by (simp add: re_search_def search_later_bol match_plus_eol)

subsection \<open>The order of the checks of verify\<close>

text \<open>
  Claim C1, as the code has it. \<open>verify\<close> tests the domain, then the nonce, then makes
  the expiration comparison, then the not-before comparison, and only then runs the
  \<open>try\<close> statement that decodes and checks the signature. A failing domain test raises
  \<open>DomainMismatch\<close> and, when it passes, a failing nonce test raises \<open>NonceMismatch\<close>,
  whatever the later conditions are and whatever the base58 and nacl capabilities would
  do. When both pass, an exception of the expiration comparison ends the call before the
  not-before comparison and the \<open>try\<close> statement; when the expiration comparison is
  false, a true not-before comparison raises \<open>NotYetValidMessage\<close> and an exception of it
  ends the call, both before the \<open>try\<close> statement; when it is false too, the outcome is
  that of the \<open>try\<close> statement. An expected domain or nonce counts as supplied when it is
  set and not the empty string: a supplied, non-empty expected domain that differs from
  the message's domain raises \<open>DomainMismatch\<close> for every capability, so before any
  decoding or signature check.
\<close>

theorem verify_check_order:
  "(domain_check_fails d m \<longrightarrow>
      (\<forall>caps. fst (verify caps now_iso utcnow m sig d n ts) = Inl (Siws DomainMismatch)))
   \<and> (\<not> domain_check_fails d m \<and> nonce_check_fails n m \<longrightarrow>
      (\<forall>caps. fst (verify caps now_iso utcnow m sig d n ts) = Inl (Siws NonceMismatch)))
   \<and> (\<forall>e. \<not> domain_check_fails d m \<and> \<not> nonce_check_fails n m
       \<and> expiry_test m (verification_time_of ts utcnow) = Inl e \<longrightarrow>
      (\<forall>caps. fst (verify caps now_iso utcnow m sig d n ts) = Inl (Py e)))
   \<and> (\<not> domain_check_fails d m \<and> \<not> nonce_check_fails n m
       \<and> expiry_test m (verification_time_of ts utcnow) = Inr False
       \<and> not_before_test m (verification_time_of ts utcnow) = Inr True \<longrightarrow>
      (\<forall>caps. fst (verify caps now_iso utcnow m sig d n ts)
         = Inl (Siws NotYetValidMessage)))
   \<and> (\<forall>e. \<not> domain_check_fails d m \<and> \<not> nonce_check_fails n m
       \<and> expiry_test m (verification_time_of ts utcnow) = Inr False
       \<and> not_before_test m (verification_time_of ts utcnow) = Inl e \<longrightarrow>
      (\<forall>caps. fst (verify caps now_iso utcnow m sig d n ts) = Inl (Py e)))
   \<and> (\<not> domain_check_fails d m \<and> \<not> nonce_check_fails n m
       \<and> expiry_test m (verification_time_of ts utcnow) = Inr False
       \<and> not_before_test m (verification_time_of ts utcnow) = Inr False \<longrightarrow>
      (\<forall>caps. fst (verify caps now_iso utcnow m sig d n ts)
         = except_BadSignatureError
             (try_body caps (snd (prepare_message now_iso m))
                (encode (fst (prepare_message now_iso m))) sig)))
   \<and> (\<forall>x. d = Some x \<and> x \<noteq> [] \<and> x \<noteq> domain m \<longrightarrow>
      (\<forall>caps. fst (verify caps now_iso utcnow m sig d n ts) = Inl (Siws DomainMismatch)))"
  by (simp add: verify_fst) (auto simp: domain_check_fails_def)

text \<open>
  The order at work, on a message with an expiration time, a later not-before time and
  an address that does not decode. Verified against a wrong domain and a wrong nonce it
  raises \<open>DomainMismatch\<close>; with the right domain, \<open>NonceMismatch\<close>; with the right nonce
  too, the exception of the expiration comparison. Without the expiration time, verified
  at the not-before time, it raises \<open>NotYetValidMessage\<close>, and verified at the naive
  clock reading, the exception of the not-before comparison. In no case is the address
  decoded.
\<close>

theorem verify_check_order_witness:
  "domain_check_fails (Some ''evil.example'') stale_message
   \<and> fst (verify example_caps '''' 0 stale_message ''0'' (Some ''evil.example'')
            (Some ''zzzzzzzz'') (Some (Aware 1704153600))) = Inl (Siws DomainMismatch)
   \<and> \<not> domain_check_fails (Some ''good.example'') stale_message
   \<and> nonce_check_fails (Some ''zzzzzzzz'') stale_message
   \<and> fst (verify example_caps '''' 0 stale_message ''0'' (Some ''good.example'')
            (Some ''zzzzzzzz'') (Some (Aware 1704153600))) = Inl (Siws NonceMismatch)
   \<and> \<not> nonce_check_fails (Some ''abcdefgh'') stale_message
   \<and> expiry_test stale_message (verification_time_of (Some (Aware 1704153600)) 0)
       = Inl TypeError
   \<and> fst (verify example_caps '''' 0 stale_message ''0'' (Some ''good.example'')
            (Some ''abcdefgh'') (Some (Aware 1704153600))) = Inl (Py TypeError)
   \<and> expiry_test (stale_message\<lparr>expiration_time := None\<rparr>)
          (verification_time_of (Some (Aware 1704153600)) 0) = Inr False
   \<and> not_before_test (stale_message\<lparr>expiration_time := None\<rparr>)
        (verification_time_of (Some (Aware 1704153600)) 0) = Inr True
   \<and> fst (verify example_caps '''' 0 (stale_message\<lparr>expiration_time := None\<rparr>) ''0''
            (Some ''good.example'') (Some ''abcdefgh'') (Some (Aware 1704153600)))
       = Inl (Siws NotYetValidMessage)
   \<and> not_before_test (stale_message\<lparr>expiration_time := None\<rparr>)
        (verification_time_of None 0) = Inl TypeError
   \<and> fst (verify example_caps '''' 0 (stale_message\<lparr>expiration_time := None\<rparr>) ''0''
            (Some ''good.example'') (Some ''abcdefgh'') None) = Inl (Py TypeError)"
proof -
  have cond:
    "domain_check_fails (Some ''evil.example'') stale_message"
    "\<not> domain_check_fails (Some ''good.example'') stale_message"
    "nonce_check_fails (Some ''zzzzzzzz'') stale_message"
    "\<not> nonce_check_fails (Some ''abcdefgh'') stale_message"
    "expiry_test stale_message (verification_time_of (Some (Aware 1704153600)) 0)
       = Inl TypeError"
    "expiry_test (stale_message\<lparr>expiration_time := None\<rparr>)
       (verification_time_of (Some (Aware 1704153600)) 0) = Inr False"
    "not_before_test (stale_message\<lparr>expiration_time := None\<rparr>)
       (verification_time_of (Some (Aware 1704153600)) 0) = Inr True"
    "\<not> domain_check_fails (Some ''good.example'') (stale_message\<lparr>expiration_time := None\<rparr>)"
    "\<not> nonce_check_fails (Some ''abcdefgh'') (stale_message\<lparr>expiration_time := None\<rparr>)"
    "expiry_test (stale_message\<lparr>expiration_time := None\<rparr>) (verification_time_of None 0)
       = Inr False"
    "not_before_test (stale_message\<lparr>expiration_time := None\<rparr>)
       (verification_time_of None 0) = Inl TypeError"
    by (simp_all add: domain_check_fails_def nonce_check_fails_def expiry_test_def
        not_before_test_def verification_time_of_def stale_message_def good_message_def
        T0_def T1_def)
  note order1 = verify_check_order [of "Some ''evil.example''" stale_message "''''" 0 "''0''"
      "Some ''zzzzzzzz''" "Some (Aware 1704153600)"]
  note order2 = verify_check_order [of "Some ''good.example''" stale_message "''''" 0 "''0''"
      "Some ''zzzzzzzz''" "Some (Aware 1704153600)"]
  note order3 = verify_check_order [of "Some ''good.example''" stale_message "''''" 0 "''0''"
      "Some ''abcdefgh''" "Some (Aware 1704153600)"]
  note order4 = verify_check_order [of "Some ''good.example''"
      "stale_message\<lparr>expiration_time := None\<rparr>" "''''" 0 "''0''"
      "Some ''abcdefgh''" "Some (Aware 1704153600)"]
  note order5 = verify_check_order [of "Some ''good.example''"
      "stale_message\<lparr>expiration_time := None\<rparr>" "''''" 0 "''0''"
      "Some ''abcdefgh''" None]
  have r1: "fst (verify example_caps '''' 0 stale_message ''0'' (Some ''evil.example'')
              (Some ''zzzzzzzz'') (Some (Aware 1704153600))) = Inl (Siws DomainMismatch)"
    by (rule order1 [THEN conjunct1, rule_format]) (rule cond)
  have r2: "fst (verify example_caps '''' 0 stale_message ''0'' (Some ''good.example'')
              (Some ''zzzzzzzz'') (Some (Aware 1704153600))) = Inl (Siws NonceMismatch)"
    by (rule order2 [THEN conjunct2, THEN conjunct1, rule_format]) (intro conjI; rule cond)
  have r3: "fst (verify example_caps '''' 0 stale_message ''0'' (Some ''good.example'')
              (Some ''abcdefgh'') (Some (Aware 1704153600))) = Inl (Py TypeError)"
    by (rule order3 [THEN conjunct2, THEN conjunct2, THEN conjunct1, rule_format])
      (intro conjI; rule cond)
  have r4: "fst (verify example_caps '''' 0 (stale_message\<lparr>expiration_time := None\<rparr>) ''0''
              (Some ''good.example'') (Some ''abcdefgh'') (Some (Aware 1704153600)))
            = Inl (Siws NotYetValidMessage)"
    by (rule order4 [THEN conjunct2, THEN conjunct2, THEN conjunct2, THEN conjunct1,
          rule_format])
      (intro conjI; rule cond)
  have r5: "fst (verify example_caps '''' 0 (stale_message\<lparr>expiration_time := None\<rparr>) ''0''
              (Some ''good.example'') (Some ''abcdefgh'') None) = Inl (Py TypeError)"
    by (rule order5 [THEN conjunct2, THEN conjunct2, THEN conjunct2, THEN conjunct2,
          THEN conjunct1, rule_format])
      (intro conjI; rule cond)
  show ?thesis
    by (intro conjI) (rule cond r1 r2 r3 r4 r5)+
qed

text \<open>
  Claim C1 as stated fails for the empty string: \<open>domain=""\<close> is supplied and differs from
  the message's domain, yet the domain test is skipped and \<open>verify\<close> goes on to decode the
  address and the signature, where the malformed signature raises \<open>ValueError\<close>.
\<close>

theorem verify_empty_domain_counterexample:
  "'''' \<noteq> domain good_message
   \<and> fst (verify example_caps '''' 0 good_message ''0'' (Some '''') None None)
       = Inl (Py ValueError)"
  by code_simp

subsection \<open>Decode failures\<close>

text \<open>
  Claim C2, as the code has it. Once the four contextual checks pass, an exception of
  \<open>base58.b58decode\<close> on the address, or on the signature after the address was decoded
  and accepted by \<open>VerifyKey\<close>, leaves \<open>verify\<close> as the exception it is: the \<open>except\<close>
  clause catches \<open>BadSignatureError\<close> only. No call of \<open>verify\<close> raises
  \<open>MalformedAddressOrSignature\<close>.
\<close>

theorem verify_decode_failure:
  "(\<not> domain_check_fails d m \<and> \<not> nonce_check_fails n m
      \<and> expiry_test m (verification_time_of ts utcnow) = Inr False
      \<and> not_before_test m (verification_time_of ts utcnow) = Inr False
      \<and> e \<noteq> BadSignatureError
      \<and> (b58decode caps (address m) = Inl e
          \<or> (\<exists>key_bytes verify_key.
                b58decode caps (address m) = Inr key_bytes
                \<and> VerifyKey caps key_bytes = Inr verify_key
                \<and> b58decode caps sig = Inl e))
    \<longrightarrow> fst (verify caps now_iso utcnow m sig d n ts) = Inl (Py e))
   \<and> fst (verify caps now_iso utcnow m sig d n ts) \<noteq> Inl (Siws MalformedAddressOrSignature)"
  by (auto simp: verify_fst try_body_def except_BadSignatureError_def prepare_message_fields
      split: sum.splits bool.splits)

theorem verify_decode_failure_witness:
  "\<not> domain_check_fails None good_message \<and> \<not> nonce_check_fails None good_message
   \<and> expiry_test good_message (verification_time_of None 0) = Inr False
   \<and> not_before_test good_message (verification_time_of None 0) = Inr False
   \<and> ValueError \<noteq> BadSignatureError
   \<and> b58decode example_caps (address good_message) = Inr (replicate 32 0)
   \<and> VerifyKey example_caps (replicate 32 0) = Inr (replicate 32 0)
   \<and> b58decode example_caps ''0OIl'' = Inl ValueError
   \<and> fst (verify example_caps '''' 0 good_message ''0OIl'' None None None)
       = Inl (Py ValueError)"
proof -
  have cond:
    "\<not> domain_check_fails None good_message" "\<not> nonce_check_fails None good_message"
    "expiry_test good_message (verification_time_of None 0) = Inr False"
    "not_before_test good_message (verification_time_of None 0) = Inr False"
    by (simp_all add: domain_check_fails_def nonce_check_fails_def expiry_test_def
        not_before_test_def good_message_def)
  have dec:
    "b58decode example_caps (address good_message) = Inr (replicate 32 0)"
    "VerifyKey example_caps (replicate 32 0) = Inr (replicate 32 0)"
    "b58decode example_caps ''0OIl'' = Inl ValueError"
    by code_simp+
  have r: "fst (verify example_caps '''' 0 good_message ''0OIl'' None None None)
           = Inl (Py ValueError)"
    by (rule verify_decode_failure [THEN conjunct1, rule_format])
      (intro conjI disjI2 exI; (rule cond dec)?; simp)
  show ?thesis
    by (intro conjI) (rule cond dec r | simp)+
qed

text \<open>
  Claim C2 as stated fails: an address that is not base-58 raises the codec's
  \<open>ValueError\<close>, and so does a signature that is not base-58; neither raises
  \<open>MalformedAddressOrSignature\<close>.
\<close>

theorem verify_decode_failure_counterexample:
  "base58_b58decode ''0OIl'' = Inl ValueError
   \<and> fst (verify example_caps '''' 0 (good_message\<lparr>address := ''0OIl''\<rparr>) ''1'' None None None)
       = Inl (Py ValueError)
   \<and> fst (verify example_caps '''' 0 good_message ''0OIl'' None None None)
       = Inl (Py ValueError)
   \<and> Inl (Py ValueError) \<noteq> (Inl (Siws MalformedAddressOrSignature) :: exn + unit)"
  by code_simp

subsection \<open>The not-before boundary\<close>




subsection \<open>The expiry boundary\<close>

text \<open>
  Claim C4 does not hold of the code. Line 132 compares the verification time with
  \<open>self.expiration_time\<close> itself, not with its \<open>date\<close> as line 135 does for
  \<open>not_before\<close>. So when the domain check and the nonce check do not fail, a message whose
  \<open>expiration_time\<close> is set makes \<open>verify\<close> raise \<open>TypeError\<close>, whatever the verification
  time is; and no call of \<open>verify\<close> raises \<open>ExpiredMessage\<close>.
\<close>

theorem verify_expiry_raises_TypeError:
  "(\<not> domain_check_fails d m \<and> \<not> nonce_check_fails n m \<and> expiration_time m = Some T \<longrightarrow>
      fst (verify caps now_iso utcnow m sig d n ts) = Inl (Py TypeError))
   \<and> fst (verify caps now_iso utcnow m sig d n ts) \<noteq> Inl (Siws ExpiredMessage)"
proof (intro conjI impI)
  assume "\<not> domain_check_fails d m \<and> \<not> nonce_check_fails n m \<and> expiration_time m = Some T"
  then show "fst (verify caps now_iso utcnow m sig d n ts) = Inl (Py TypeError)"
    by (simp add: verify_fst expiry_test_set)
next
  show "fst (verify caps now_iso utcnow m sig d n ts) \<noteq> Inl (Siws ExpiredMessage)"
    using expiry_test_never_True [of m "verification_time_of ts utcnow"]
    by (auto simp: verify_fst except_BadSignatureError_def split: sum.splits bool.splits)
qed

text \<open>
  With \<open>expiration_time\<close> set to \<open>T1\<close> and verification at \<open>T1\<close>, \<open>verify\<close> raises
  \<open>TypeError\<close>.
\<close>

theorem verify_expiry_raises_TypeError_witness:
  "\<not> domain_check_fails None (good_message\<lparr>expiration_time := Some T1\<rparr>)
   \<and> \<not> nonce_check_fails None (good_message\<lparr>expiration_time := Some T1\<rparr>)
   \<and> expiration_time (good_message\<lparr>expiration_time := Some T1\<rparr>) = Some T1
   \<and> fst (verify example_caps '''' 0 (good_message\<lparr>expiration_time := Some T1\<rparr>) ''0''
            None None (Some (date T1))) = Inl (Py TypeError)"
proof -
  have cond:
    "\<not> domain_check_fails None (good_message\<lparr>expiration_time := Some T1\<rparr>)"
    "\<not> nonce_check_fails None (good_message\<lparr>expiration_time := Some T1\<rparr>)"
    "expiration_time (good_message\<lparr>expiration_time := Some T1\<rparr>) = Some T1"
    by (simp_all add: domain_check_fails_def nonce_check_fails_def good_message_def)
  have r: "fst (verify example_caps '''' 0 (good_message\<lparr>expiration_time := Some T1\<rparr>) ''0''
             None None (Some (date T1))) = Inl (Py TypeError)"
    by (rule verify_expiry_raises_TypeError [THEN conjunct1, rule_format])
      (intro conjI; rule cond)
  show ?thesis
    by (intro conjI) (rule cond r)+
qed

subsection \<open>The Chain ID line\<close>

lemma str_int_1: "str_int 1 = ''1''"
  by code_simp

lemma entries_head:
  "layout_entries now_iso m
        = (''URI: '' @ uri m) # (''Version: '' @ version m)
          # (''Chain ID: '' @ str_int (if chain_id m = 0 then 1 else chain_id m))
          # (''Nonce: '' @ nonce m) # drop 4 (layout_entries now_iso m)"
    by (simp add: layout_entries_def)

lemma join4: "join s (a # b # c # d # r) = a @ s @ b @ s @ c @ s @ join s (d # r)"
  by simp

lemma chain_id_line_at:
  "fst (prepare_message now_iso m)
   = (layout_prefix m @ NL @ NL @ ''URI: '' @ uri m @ NL @ ''Version: '' @ version m)
     @ NL @ ''Chain ID: '' @ str_int (if chain_id m = 0 then 1 else chain_id m) @ NL
     @ join NL ((''Nonce: '' @ nonce m) # drop 4 (layout_entries now_iso m))"
  apply (simp only: prepare_message_text)
  apply (subst entries_head)
  apply (simp only: join4 append.assoc)
  done

text \<open>
  Claim C5. The text of \<open>prepare_message\<close> contains, as a whole line, \<open>Chain ID:\<close> followed
  by the decimal \<open>chain_id\<close> when \<open>chain_id\<close> is not zero, and the line \<open>Chain ID: 1\<close> when
  it is zero; so a message with \<open>chain_id\<close> 0 and the same message with \<open>chain_id\<close> 1 give
  the same text.
\<close>

theorem chain_id_line:
  "(chain_id m \<noteq> 0 \<longrightarrow>
      (\<exists>pre post. fst (prepare_message now_iso m)
         = pre @ NL @ ''Chain ID: '' @ str_int (chain_id m) @ NL @ post))
   \<and> (chain_id m = 0 \<longrightarrow>
      (\<exists>pre post. fst (prepare_message now_iso m) = pre @ NL @ ''Chain ID: 1'' @ NL @ post))
   \<and> fst (prepare_message now_iso (m\<lparr>chain_id := 0\<rparr>))
       = fst (prepare_message now_iso (m\<lparr>chain_id := 1\<rparr>))"
proof (intro conjI impI)
  assume "chain_id m \<noteq> 0"
  then have "fst (prepare_message now_iso m)
     = (layout_prefix m @ NL @ NL @ ''URI: '' @ uri m @ NL @ ''Version: '' @ version m)
       @ NL @ ''Chain ID: '' @ str_int (chain_id m) @ NL
       @ join NL ((''Nonce: '' @ nonce m) # drop 4 (layout_entries now_iso m))"
    using chain_id_line_at [of now_iso m] by simp
  then show "\<exists>pre post. fst (prepare_message now_iso m)
         = pre @ NL @ ''Chain ID: '' @ str_int (chain_id m) @ NL @ post"
    by (intro exI)
next
  assume "chain_id m = 0"
  then have "fst (prepare_message now_iso m)
     = (layout_prefix m @ NL @ NL @ ''URI: '' @ uri m @ NL @ ''Version: '' @ version m)
       @ NL @ ''Chain ID: 1'' @ NL
       @ join NL ((''Nonce: '' @ nonce m) # drop 4 (layout_entries now_iso m))"
    using chain_id_line_at [of now_iso m] by (simp add: str_int_1)
  then show "\<exists>pre post. fst (prepare_message now_iso m)
         = pre @ NL @ ''Chain ID: 1'' @ NL @ post"
    by (intro exI)
next
  show "fst (prepare_message now_iso (m\<lparr>chain_id := 0\<rparr>))
       = fst (prepare_message now_iso (m\<lparr>chain_id := 1\<rparr>))"
    by (simp add: prepare_message_text layout_prefix_def layout_entries_def)
qed

text \<open>
  For \<open>chain_id\<close> 5 the line is \<open>Chain ID: 5\<close>; for \<open>chain_id\<close> 0 it is \<open>Chain ID: 1\<close>.
\<close>

theorem chain_id_line_witness:
  "chain_id (good_message\<lparr>chain_id := 5\<rparr>) \<noteq> 0
   \<and> str_int (chain_id (good_message\<lparr>chain_id := 5\<rparr>)) = ''5''
   \<and> (\<exists>pre post. fst (prepare_message '''' (good_message\<lparr>chain_id := 5\<rparr>))
         = pre @ NL @ ''Chain ID: '' @ str_int (chain_id (good_message\<lparr>chain_id := 5\<rparr>))
           @ NL @ post)
   \<and> chain_id (good_message\<lparr>chain_id := 0\<rparr>) = 0
   \<and> (\<exists>pre post. fst (prepare_message '''' (good_message\<lparr>chain_id := 0\<rparr>))
         = pre @ NL @ ''Chain ID: 1'' @ NL @ post)"
proof -
  have c5: "chain_id (good_message\<lparr>chain_id := 5\<rparr>) \<noteq> 0"
    and c0: "chain_id (good_message\<lparr>chain_id := 0\<rparr>) = 0"
    by simp_all
  have s5: "str_int (chain_id (good_message\<lparr>chain_id := 5\<rparr>)) = ''5''"
    by code_simp
  note line5 = chain_id_line [of "good_message\<lparr>chain_id := 5\<rparr>" "''''",
      THEN conjunct1, rule_format, OF c5]
  note line0 = chain_id_line [of "good_message\<lparr>chain_id := 0\<rparr>" "''''",
      THEN conjunct2, THEN conjunct1, rule_format, OF c0]
  show ?thesis
    by (intro conjI) (rule c5 c0 s5 line5 line0)+
qed

subsection \<open>The layout of the text\<close>

text \<open>
  Claim C6, as the code has it. The text is the prefix (header line, newline, address
  line; then a blank line and the statement when the statement is set and not empty, else
  one newline), then \<open>"\n\n"\<close>, then the suffix entries in order, each entry on the line
  after the one before: the entries are joined by single newlines, not by blank lines.
\<close>

theorem prepare_message_layout:
  "fst (prepare_message now_iso m) = layout_newline_separated now_iso m"
  by (simp add: prepare_message_text layout_newline_separated_def)

text \<open>
  Claim C6 as stated fails: the suffix entries of the text are not separated by blank
  lines.
\<close>

theorem prepare_message_layout_counterexample:
  "fst (prepare_message '''' good_message)
     = ''good.example wants you to sign in with your Solana account:\<newline>11111111111111111111111111111111\<newline>\<newline>\<newline>URI: https://good.example/login\<newline>Version: 1\<newline>Chain ID: 1\<newline>Nonce: abcdefgh\<newline>Issued At: 2024-01-01T00:00:00Z''
   \<and> fst (prepare_message '''' good_message) \<noteq> layout_blank_line_separated '''' good_message"
  by code_simp

subsection \<open>What prepare_message changes\<close>

lemma prepare_message_filled:
  "prepare_message b (snd (prepare_message a m)) = prepare_message a m"
proof (rule prod_eqI)
  have set: "issued_at (snd (prepare_message a m)) \<noteq> None"
    by (simp add: prepare_message_snd)
  then show "snd (prepare_message b (snd (prepare_message a m))) = snd (prepare_message a m)"
    by (simp add: prepare_message_snd [of b])
  have "layout_entries b (snd (prepare_message a m)) = layout_entries a (snd (prepare_message a m))"
    using set by (rule layout_entries_issued_at)
  also have "\<dots> = layout_entries a m"
    by (cases "issued_at m") (simp_all add: prepare_message_snd layout_entries_def)
  finally show "fst (prepare_message b (snd (prepare_message a m))) = fst (prepare_message a m)"
    by (simp add: prepare_message_text prepare_message_snd layout_prefix_issued_at)
qed

text \<open>
  Claim C7. \<open>prepare_message\<close> leaves every field but \<open>issued_at\<close> as it was; it changes
  \<open>issued_at\<close> only when it was unset, to the clock's reading at that call; and a message
  whose \<open>issued_at\<close> is set is left unchanged and gives the same text at every call,
  whatever the clock reads. After any first call, a second call returns what the first
  returned.
\<close>

theorem prepare_message_frame:
  "snd (prepare_message now_iso m)
     = m\<lparr>issued_at := Some (case issued_at m of None \<Rightarrow> now_iso | Some t \<Rightarrow> t)\<rparr>
   \<and> (issued_at m \<noteq> None \<longrightarrow>
        snd (prepare_message now_iso m) = m
        \<and> prepare_message later_iso (snd (prepare_message now_iso m))
            = (fst (prepare_message now_iso m), m))
   \<and> (issued_at m = None \<longrightarrow> issued_at (snd (prepare_message now_iso m)) = Some now_iso)
   \<and> prepare_message later_iso (snd (prepare_message now_iso m)) = prepare_message now_iso m"
proof (intro conjI impI)
  show "snd (prepare_message now_iso m)
     = m\<lparr>issued_at := Some (case issued_at m of None \<Rightarrow> now_iso | Some t \<Rightarrow> t)\<rparr>"
    by (cases "issued_at m") (simp_all add: prepare_message_snd)
next
  assume "issued_at m \<noteq> None"
  then show "snd (prepare_message now_iso m) = m"
    by (simp add: prepare_message_snd)
  then show "prepare_message later_iso (snd (prepare_message now_iso m))
            = (fst (prepare_message now_iso m), m)"
    by (metis prepare_message_filled prod.collapse)
next
  assume "issued_at m = None"
  then show "issued_at (snd (prepare_message now_iso m)) = Some now_iso"
    by (simp add: prepare_message_snd)
next
  show "prepare_message later_iso (snd (prepare_message now_iso m)) = prepare_message now_iso m"
    by (rule prepare_message_filled)
qed

text \<open>
  A message with \<open>issued_at\<close> set is unchanged by two calls at different clock readings,
  and both return the same text; a message with \<open>issued_at\<close> unset gets the first
  reading.
\<close>

theorem prepare_message_frame_witness:
  "issued_at good_message \<noteq> None
   \<and> snd (prepare_message ''2025-01-01T00:00:00'' good_message) = good_message
   \<and> prepare_message ''2026-01-01T00:00:00''
        (snd (prepare_message ''2025-01-01T00:00:00'' good_message))
       = (fst (prepare_message ''2025-01-01T00:00:00'' good_message), good_message)
   \<and> issued_at (good_message\<lparr>issued_at := None\<rparr>) = None
   \<and> issued_at (snd (prepare_message ''2025-01-01T00:00:00''
                        (good_message\<lparr>issued_at := None\<rparr>)))
       = Some ''2025-01-01T00:00:00''"
proof -
  have s: "issued_at good_message \<noteq> None"
    and u: "issued_at (good_message\<lparr>issued_at := None\<rparr>) = None"
    by (simp_all add: good_message_def)
  note set = prepare_message_frame [of "''2025-01-01T00:00:00''" good_message
      "''2026-01-01T00:00:00''", THEN conjunct2, THEN conjunct1, rule_format, OF s]
  note unset = prepare_message_frame [of "''2025-01-01T00:00:00''"
      "good_message\<lparr>issued_at := None\<rparr>" "''2026-01-01T00:00:00''",
      THEN conjunct2, THEN conjunct2, THEN conjunct1, rule_format, OF u]
  show ?thesis
    by (intro conjI) (rule s u set [THEN conjunct1] set [THEN conjunct2] unset)+
qed

subsection \<open>Construction\<close>

lemma init_dict: "SiwsMessage_init env (PyDict d) abnf = BaseModel_init env d"
  by (simp add: SiwsMessage_init_def)

text \<open>
  Claim C8. For a field record whose other fields are valid, a nonce shorter than 8
  characters (so one of length 7) makes construction fail with the nonce's
  \<open>string_too_short\<close> error as the only error; a nonce of length 8 or more passes the
  nonce validation, and construction succeeds.
\<close>

theorem nonce_min_length:
  assumes "validate_domain (domain d) = []" and "validate_uri env (uri d) = []"
    and "validate_chain_id (chain_id d) = []" and "validate_issued_at (issued_at d) = []"
    and "validate_statement (statement d) = []"
    and "validate_resources env (resources d) = []"
  shows "(length (nonce d) = 7 \<longrightarrow>
            validate_nonce (nonce d) = [(''nonce'', string_too_short)]
            \<and> SiwsMessage_init env (PyDict d) abnf
                = Inl (ValidationError [(''nonce'', string_too_short)]))
         \<and> (length (nonce d) \<ge> 8 \<longrightarrow>
            validate_nonce (nonce d) = []
            \<and> SiwsMessage_init env (PyDict d) abnf = Inr d)"
  using assms by (simp add: init_dict BaseModel_init_def validate_fields_def validate_nonce_def)

lemma good_message_valid:
  "validate_domain (domain good_message) = []"
  "validate_uri example_env (uri good_message) = []"
  "validate_chain_id (chain_id good_message) = []"
  "validate_issued_at (issued_at good_message) = []"
  "validate_nonce (nonce good_message) = []"
  "validate_statement (statement good_message) = []"
  "validate_resources example_env (resources good_message) = []"
  by code_simp+

theorem nonce_min_length_witness:
  "length (nonce (good_message\<lparr>nonce := ''abcdefg''\<rparr>)) = 7
   \<and> SiwsMessage_init example_env (PyDict (good_message\<lparr>nonce := ''abcdefg''\<rparr>)) True
       = Inl (ValidationError [(''nonce'', string_too_short)])
   \<and> length (nonce (good_message\<lparr>nonce := ''abcdefgh''\<rparr>)) \<ge> 8
   \<and> SiwsMessage_init example_env (PyDict (good_message\<lparr>nonce := ''abcdefgh''\<rparr>)) True
       = Inr (good_message\<lparr>nonce := ''abcdefgh''\<rparr>)"
proof -
  have l7: "length (nonce (good_message\<lparr>nonce := ''abcdefg''\<rparr>)) = 7"
    and l8: "length (nonce (good_message\<lparr>nonce := ''abcdefgh''\<rparr>)) \<ge> 8"
    by simp_all
  have short: "SiwsMessage_init example_env (PyDict (good_message\<lparr>nonce := ''abcdefg''\<rparr>)) True
       = Inl (ValidationError [(''nonce'', string_too_short)])"
    using l7 good_message_valid
      nonce_min_length [of "good_message\<lparr>nonce := ''abcdefg''\<rparr>" example_env True]
    by simp
  have long: "SiwsMessage_init example_env (PyDict (good_message\<lparr>nonce := ''abcdefgh''\<rparr>)) True
       = Inr (good_message\<lparr>nonce := ''abcdefgh''\<rparr>)"
    using l8 good_message_valid
      nonce_min_length [of "good_message\<lparr>nonce := ''abcdefgh''\<rparr>" example_env True]
    by simp
  show ?thesis
    by (intro conjI) (rule l7 l8 short long)+
qed

lemma validate_domain_iff:
  "validate_domain v
   = (if v \<noteq> [] \<and> (\<forall>c\<in>set v. c \<notin> {CHR ''/'', CHR ''?'', CHR ''#''}) then []
      else [(''domain'', string_pattern_mismatch)])"
  by (simp add: validate_domain_def domain_pattern_def re_search_anchored)

text \<open>
  Claim C9. For a field record whose other fields are valid, a domain that contains
  \<open>/\<close>, \<open>?\<close> or \<open>#\<close> makes construction fail with the domain's
  \<open>string_pattern_mismatch\<close> error; a domain that is not empty and has none of the three
  characters passes the domain validation, and construction succeeds.
\<close>

theorem domain_pattern_enforced:
  assumes "validate_uri env (uri d) = []" and "validate_chain_id (chain_id d) = []"
    and "validate_issued_at (issued_at d) = []" and "validate_nonce (nonce d) = []"
    and "validate_statement (statement d) = []"
    and "validate_resources env (resources d) = []"
  shows "((\<exists>c\<in>set (domain d). c \<in> {CHR ''/'', CHR ''?'', CHR ''#''}) \<longrightarrow>
            validate_domain (domain d) = [(''domain'', string_pattern_mismatch)]
            \<and> SiwsMessage_init env (PyDict d) abnf
                = Inl (ValidationError [(''domain'', string_pattern_mismatch)]))
         \<and> (domain d \<noteq> [] \<and> (\<forall>c\<in>set (domain d). c \<notin> {CHR ''/'', CHR ''?'', CHR ''#''}) \<longrightarrow>
            validate_domain (domain d) = []
            \<and> SiwsMessage_init env (PyDict d) abnf = Inr d)"
  using assms
  by (auto simp: init_dict BaseModel_init_def validate_fields_def validate_domain_iff)

theorem domain_pattern_enforced_witness:
  "(\<exists>c\<in>set (domain (good_message\<lparr>domain := ''a/b''\<rparr>)). c \<in> {CHR ''/'', CHR ''?'', CHR ''#''})
   \<and> SiwsMessage_init example_env (PyDict (good_message\<lparr>domain := ''a/b''\<rparr>)) True
       = Inl (ValidationError [(''domain'', string_pattern_mismatch)])
   \<and> domain (good_message\<lparr>domain := ''a.b''\<rparr>) \<noteq> []
   \<and> set (domain (good_message\<lparr>domain := ''a.b''\<rparr>)) \<inter> {CHR ''/'', CHR ''?'', CHR ''#''} = {}
   \<and> SiwsMessage_init example_env (PyDict (good_message\<lparr>domain := ''a.b''\<rparr>)) True
       = Inr (good_message\<lparr>domain := ''a.b''\<rparr>)"
proof -
  have bad: "\<exists>c\<in>set (domain (good_message\<lparr>domain := ''a/b''\<rparr>)).
               c \<in> {CHR ''/'', CHR ''?'', CHR ''#''}"
    and ne: "domain (good_message\<lparr>domain := ''a.b''\<rparr>) \<noteq> []"
    and free: "\<forall>c\<in>set (domain (good_message\<lparr>domain := ''a.b''\<rparr>)).
               c \<notin> {CHR ''/'', CHR ''?'', CHR ''#''}"
    by simp_all
  have disjoint:
    "set (domain (good_message\<lparr>domain := ''a.b''\<rparr>)) \<inter> {CHR ''/'', CHR ''?'', CHR ''#''} = {}"
    by simp
  have fails: "SiwsMessage_init example_env (PyDict (good_message\<lparr>domain := ''a/b''\<rparr>)) True
       = Inl (ValidationError [(''domain'', string_pattern_mismatch)])"
    using bad good_message_valid
      domain_pattern_enforced [of example_env "good_message\<lparr>domain := ''a/b''\<rparr>" True]
    by simp
  have passes: "SiwsMessage_init example_env (PyDict (good_message\<lparr>domain := ''a.b''\<rparr>)) True
       = Inr (good_message\<lparr>domain := ''a.b''\<rparr>)"
    using ne free good_message_valid
      domain_pattern_enforced [of example_env "good_message\<lparr>domain := ''a.b''\<rparr>" True]
    by simp
  show ?thesis
    by (intro conjI) (rule bad ne disjoint fails passes)+
qed

text \<open>
  Claim C10. A \<open>message\<close> argument that is neither a \<open>str\<close> nor a \<open>dict\<close> makes
  construction raise \<open>TypeError\<close>, whatever the parsers and validators would do and
  whatever \<open>abnf\<close> is; no message is constructed.
\<close>

theorem init_type_error:
  "\<not> isinstance_str message \<Longrightarrow> \<not> isinstance_dict message
   \<Longrightarrow> SiwsMessage_init env message abnf = Inl (Py TypeError)
       \<and> (\<forall>m. SiwsMessage_init env message abnf \<noteq> Inr m)"
  by (cases message) (simp_all add: SiwsMessage_init_def)

theorem init_type_error_witness:
  "\<not> isinstance_str (PyInt 5) \<and> \<not> isinstance_dict (PyInt 5)
   \<and> SiwsMessage_init example_env (PyInt 5) True = Inl (Py TypeError)
   \<and> \<not> isinstance_str (PyList [PyStr ''a'']) \<and> \<not> isinstance_dict (PyList [PyStr ''a''])
   \<and> SiwsMessage_init example_env (PyList [PyStr ''a'']) False = Inl (Py TypeError)"
  using init_type_error [of "PyInt 5" example_env True]
    init_type_error [of "PyList [PyStr ''a'']" example_env False]
  by simp

end
